theory Spec2Isabelle
  imports Complex_Main "HOL-Library.Log_Nat"
begin

section \<open>Python floats\<close>

text \<open>
  A Python \<^verbatim>\<open>float\<close> is an IEEE-754 binary64 value: a finite number, one of the two
  infinities, or a NaN. A finite double is modelled by the rational number it denotes
  (the two signed zeros are both \<open>Finite 0\<close>: no comparison and no product below tells
  them apart). The type is larger than the set of doubles, since \<open>Finite\<close> accepts every
  rational; \<open>round_double\<close> below maps a rational to the double nearest to it, and the
  arithmetic of the program only ever produces values in its range.
\<close>

datatype pyfloat = Finite rat | PosInf | NegInf | NaN

definition pow2 :: "int \<Rightarrow> rat" where
  "pow2 e = (if 0 \<le> e then 2 ^ nat e else 1 / 2 ^ nat (- e))"

text \<open>\<open>ilog2 a\<close> is the binary exponent of a positive rational: \<open>2^(ilog2 a) \<le> a < 2^(ilog2 a + 1)\<close>.\<close>

definition ilog2 :: "rat \<Rightarrow> int" where
  "ilog2 a = (if 1 \<le> a then bitlen \<lfloor>a\<rfloor> - 1 else - bitlen (\<lceil>1 / a\<rceil> - 1))"

definition round_half_even :: "rat \<Rightarrow> int" where
  "round_half_even x =
     (let f = \<lfloor>x\<rfloor>; d = x - of_int f
      in if d < 1 / 2 then f else if 1 / 2 < d then f + 1 else if even f then f else f + 1)"

text \<open>
  Rounding to nearest, ties to even, into binary64: 53 significant bits, the least
  exponent of a unit in the last place is \<open>-1074\<close> (subnormal numbers), and a result of
  magnitude \<open>2^1024\<close> or more (binary exponent at least 1024) overflows to an infinity.
\<close>

definition round_double :: "rat \<Rightarrow> pyfloat" where
  "round_double q =
     (if q = 0 then Finite 0
      else let a = \<bar>q\<bar>;
               e = max (ilog2 a - 52) (- 1074);
               r = of_int (round_half_even (a / pow2 e)) * pow2 e
           in if 1024 \<le> ilog2 r then (if 0 < q then PosInf else NegInf)
              else Finite (if 0 < q then r else - r))"

text \<open>A decimal literal of the source, such as \<^verbatim>\<open>0.06\<close>, denotes the double nearest to it.\<close>

definition float_lit :: "rat \<Rightarrow> pyfloat" where
  "float_lit q = round_double q"

text \<open>Python's \<^verbatim>\<open>>=\<close> and \<^verbatim>\<open><\<close> on floats: every comparison with a NaN is false.\<close>

fun fge :: "pyfloat \<Rightarrow> pyfloat \<Rightarrow> bool" where
  "fge NaN _ = False"
| "fge _ NaN = False"
| "fge PosInf _ = True"
| "fge _ NegInf = True"
| "fge (Finite a) (Finite b) = (b \<le> a)"
| "fge (Finite a) PosInf = False"
| "fge NegInf _ = False"

fun flt :: "pyfloat \<Rightarrow> pyfloat \<Rightarrow> bool" where
  "flt NaN _ = False"
| "flt _ NaN = False"
| "flt PosInf _ = False"
| "flt _ NegInf = False"
| "flt (Finite a) (Finite b) = (a < b)"
| "flt (Finite a) PosInf = True"
| "flt NegInf _ = True"

text \<open>
  Python's \<^verbatim>\<open>*\<close> on floats: the exact product, rounded once; an infinity times zero
  and anything times a NaN is a NaN.
\<close>

fun fmul :: "pyfloat \<Rightarrow> pyfloat \<Rightarrow> pyfloat" where
  "fmul NaN _ = NaN"
| "fmul _ NaN = NaN"
| "fmul (Finite a) (Finite b) = round_double (a * b)"
| "fmul (Finite a) PosInf = (if a = 0 then NaN else if 0 < a then PosInf else NegInf)"
| "fmul (Finite a) NegInf = (if a = 0 then NaN else if 0 < a then NegInf else PosInf)"
| "fmul PosInf (Finite b) = (if b = 0 then NaN else if 0 < b then PosInf else NegInf)"
| "fmul NegInf (Finite b) = (if b = 0 then NaN else if 0 < b then NegInf else PosInf)"
| "fmul PosInf PosInf = PosInf"
| "fmul PosInf NegInf = NegInf"
| "fmul NegInf PosInf = NegInf"
| "fmul NegInf NegInf = PosInf"

text \<open>
  A numpy \<^verbatim>\<open>float32\<close> is an IEEE-754 binary32 value: 24 significant bits, the least
  exponent of a unit in the last place is \<open>-149\<close>, and a result of magnitude \<open>2^128\<close> or
  more overflows to an infinity. Every binary32 value is also a double, so converting it
  with \<^verbatim>\<open>float(...)\<close> changes nothing.
\<close>

definition round_single :: "rat \<Rightarrow> pyfloat" where
  "round_single q =
     (if q = 0 then Finite 0
      else let a = \<bar>q\<bar>;
               e = max (ilog2 a - 23) (- 149);
               r = of_int (round_half_even (a / pow2 e)) * pow2 e
           in if 128 \<le> ilog2 r then (if 0 < q then PosInf else NegInf)
              else Finite (if 0 < q then r else - r))"

text \<open>The product of two \<^verbatim>\<open>float32\<close> values: as \<open>fmul\<close>, rounded into binary32.\<close>

fun fmul32 :: "pyfloat \<Rightarrow> pyfloat \<Rightarrow> pyfloat" where
  "fmul32 (Finite a) (Finite b) = round_single (a * b)"
| "fmul32 x y = fmul x y"

section \<open>Risk thresholds and risk categories\<close>

text \<open>
  \<^verbatim>\<open>MODERATE_RISK_THRESHOLD = 0.06*3\<close> and \<^verbatim>\<open>HIGH_RISK_THRESHOLD = 0.24*3\<close>: the
  integer \<^verbatim>\<open>3\<close> is converted to the double \<open>3.0\<close> and the product is a float product.
\<close>

definition MODERATE_RISK_THRESHOLD :: pyfloat where
  "MODERATE_RISK_THRESHOLD = fmul (float_lit (6 / 100)) (Finite 3)"

definition HIGH_RISK_THRESHOLD :: pyfloat where
  "HIGH_RISK_THRESHOLD = fmul (float_lit (24 / 100)) (Finite 3)"

text \<open>
  The three values of \<^verbatim>\<open>risk_level\<close>: the strings \<^verbatim>\<open>"Low Risk"\<close>,
  \<^verbatim>\<open>"Moderate Risk"\<close> and \<^verbatim>\<open>"High Risk"\<close>.
\<close>

datatype risk = LowRisk | ModerateRisk | HighRisk

fun risk_label :: "risk \<Rightarrow> string" where
  "risk_label LowRisk = ''Low Risk''"
| "risk_label ModerateRisk = ''Moderate Risk''"
| "risk_label HighRisk = ''High Risk''"

fun tier_rank :: "risk \<Rightarrow> nat" where
  "tier_rank LowRisk = 0"
| "tier_rank ModerateRisk = 1"
| "tier_rank HighRisk = 2"

text \<open>The \<^verbatim>\<open>if\<close>/\<^verbatim>\<open>elif\<close>/\<^verbatim>\<open>else\<close> chain under \<^verbatim>\<open># Risk categories\<close>.\<close>

definition risk_level :: "pyfloat \<Rightarrow> risk" where
  "risk_level proba =
     (if fge proba HIGH_RISK_THRESHOLD then HighRisk
      else if fge proba MODERATE_RISK_THRESHOLD then ModerateRisk
      else LowRisk)"

section \<open>Exceptions and messages\<close>

text \<open>
  The exceptions that the two \<^verbatim>\<open>try\<close> blocks of the program can meet, each with the
  text that \<^verbatim>\<open>str(e)\<close> gives. All three are instances of \<^verbatim>\<open>Exception\<close>, which is
  what the handlers catch; \<^verbatim>\<open>KeyboardInterrupt\<close> and \<^verbatim>\<open>SystemExit\<close> are not, and are
  outside this model.
\<close>

datatype py_exn = FileNotFoundError string | IndexError string | OtherException string

fun str_exn :: "py_exn \<Rightarrow> string" where
  "str_exn (FileNotFoundError s) = s"
| "str_exn (IndexError s) = s"
| "str_exn (OtherException s) = s"

text \<open>What the program shows: \<^verbatim>\<open>st.error\<close> and \<^verbatim>\<open>st.info\<close>.\<close>

datatype ui_msg = StError string | StInfo string

section \<open>Loading the preprocessor and the model\<close>

text \<open>
  \<^verbatim>\<open>load_model\<close> reads the file system twice (\<^verbatim>\<open>os.path.exists\<close>) and deserialises two
  files (\<^verbatim>\<open>joblib.load\<close>). The model takes what these four calls answer: whether each
  file exists, and for each load either the exception it raises or the object it returns.
  The result is what the program shows together with the pair that it returns.
\<close>

definition load_model_try ::
  "bool \<Rightarrow> bool \<Rightarrow> py_exn + 'p \<Rightarrow> py_exn + 'm \<Rightarrow> py_exn + 'p \<times> 'm" where
  "load_model_try preprocessor_exists model_exists load_preprocessor load_model_file =
     (if \<not> preprocessor_exists \<or> \<not> model_exists
      then Inl (FileNotFoundError
             ''validated_preprocessor.joblib or validated_model.joblib not found'')
      else case load_preprocessor of
             Inl e \<Rightarrow> Inl e
           | Inr preprocessor \<Rightarrow>
               (case load_model_file of
                  Inl e \<Rightarrow> Inl e
                | Inr model \<Rightarrow> Inr (preprocessor, model)))"

definition load_model ::
  "bool \<Rightarrow> bool \<Rightarrow> py_exn + 'p \<Rightarrow> py_exn + 'm \<Rightarrow> ui_msg list \<times> 'p option \<times> 'm option" where
  "load_model preprocessor_exists model_exists load_preprocessor load_model_file =
     (case load_model_try preprocessor_exists model_exists load_preprocessor load_model_file of
        Inr (preprocessor, model) \<Rightarrow> ([], Some preprocessor, Some model)
      | Inl (FileNotFoundError s) \<Rightarrow> ([StError s], None, None)
      | Inl e \<Rightarrow>
          ([StError (''An error occurred while loading the model files: '' @ str_exn e),
            StInfo (''Likely a scikit-learn version mismatch between training and this app. ''
              @ ''This app includes a compatibility shim for ColumnTransformer pickles from newer sklearn. ''
              @ ''If the error persists, either upgrade sklearn to the training version or re-export artifacts.'')],
           None, None))"

section \<open>The form and the input dictionary\<close>

text \<open>
  The values that the sidebar widgets return: \<^verbatim>\<open>number_input\<close> with integer bounds
  gives an \<^verbatim>\<open>int\<close>, with float bounds a \<^verbatim>\<open>float\<close>; a slider with integer bounds gives
  an \<^verbatim>\<open>int\<close>; a select box gives one of its options, a string.
\<close>

record form =
  age :: int
  bmi :: pyfloat
  hr :: int
  dbp :: int
  sbp :: int
  b8 :: pyfloat
  m14 :: pyfloat
  d1 :: int
  d3 :: int
  p1 :: string
  p13 :: string

text \<open>
  A value stored in the dictionary or in a cell of the data frame: an integer, a float,
  or \<open>PyOther s\<close>, an object that is not a number and that pandas cannot read as one
  (such as the string \<^verbatim>\<open>'abc'\<close>).
\<close>

datatype pyval = PyInt int | PyFloat pyfloat | PyOther string

definition p1_encoded :: "form \<Rightarrow> int" where
  "p1_encoded f = (if p1 f = ''Yes'' then 1 else 2)"

definition p13_encoded :: "form \<Rightarrow> int" where
  "p13_encoded f = (if p13 f = ''Yes'' then 1 else 2)"

text \<open>The dictionary that \<^verbatim>\<open>user_inputs\<close> returns, as its items in insertion order.\<close>

definition user_inputs :: "form \<Rightarrow> (string \<times> pyval) list" where
  "user_inputs f =
     [(''age'', PyInt (age f)), (''bmi'', PyFloat (bmi f)), (''HR'', PyInt (hr f)),
      (''DBP'', PyInt (dbp f)), (''b8'', PyFloat (b8 f)), (''m14'', PyFloat (m14 f)),
      (''SBP'', PyInt (sbp f)), (''d1'', PyInt (d1 f)), (''d3'', PyInt (d3 f)),
      (''p1'', PyInt (p1_encoded f)), (''p13'', PyInt (p13_encoded f))]"

section \<open>The data frame\<close>

definition columns_ordered :: "string list" where
  "columns_ordered =
     [''p1'', ''p13'', ''age'', ''bmi'', ''HR'', ''DBP'', ''b8'', ''m14'', ''SBP'', ''d1'', ''d3'']"

text \<open>
  \<^verbatim>\<open>pd.DataFrame([input_data], columns=columns_ordered)\<close>: one row, whose columns are
  the requested ones in the requested order; a column that is not a key of the dictionary
  holds NaN. The row is a list of named cells.
\<close>

definition DataFrame :: "(string \<times> pyval) list \<Rightarrow> string list \<Rightarrow> (string \<times> pyval) list" where
  "DataFrame input_data columns =
     map (\<lambda>c. (c, case map_of input_data c of Some v \<Rightarrow> v | None \<Rightarrow> PyFloat NaN)) columns"

text \<open>
  \<^verbatim>\<open>pd.to_numeric(..., errors="coerce")\<close> on a cell: a number stays, anything that cannot
  be read as a number becomes NaN, and nothing is raised.
\<close>

fun to_numeric_coerce :: "pyval \<Rightarrow> pyval" where
  "to_numeric_coerce (PyInt i) = PyInt i"
| "to_numeric_coerce (PyFloat x) = PyFloat x"
| "to_numeric_coerce (PyOther s) = PyFloat NaN"

text \<open>A cell is numeric when it holds an integer or a float.\<close>

fun is_numeric :: "pyval \<Rightarrow> bool" where
  "is_numeric (PyInt i) = True"
| "is_numeric (PyFloat x) = True"
| "is_numeric (PyOther s) = False"

text \<open>The loop \<^verbatim>\<open>for c in input_df.columns\<close>.\<close>

fun coerce_columns :: "(string \<times> pyval) list \<Rightarrow> (string \<times> pyval) list" where
  "coerce_columns [] = []"
| "coerce_columns ((c, v) # df) = (c, to_numeric_coerce v) # coerce_columns df"

definition input_df :: "(string \<times> pyval) list \<Rightarrow> (string \<times> pyval) list" where
  "input_df input_data = coerce_columns (DataFrame input_data columns_ordered)"

section \<open>Scoring\<close>

text \<open>
  \<^verbatim>\<open>model.predict_proba(X)[0][1]\<close>: the result of \<^verbatim>\<open>predict_proba\<close> is a two-dimensional
  numpy array of floats, here its dtype (\<^verbatim>\<open>float64\<close> or \<^verbatim>\<open>float32\<close>, the two that
  classifiers return) with the list of its rows. Indexing outside it raises numpy's
  \<^verbatim>\<open>IndexError\<close>.
\<close>

datatype dtype = Float32 | Float64

fun row0_col1 :: "pyfloat list list \<Rightarrow> py_exn + pyfloat" where
  "row0_col1 [] = Inl (IndexError ''index 0 is out of bounds for axis 0 with size 0'')"
| "row0_col1 ([] # _) = Inl (IndexError ''index 1 is out of bounds for axis 0 with size 0'')"
| "row0_col1 ([_] # _) = Inl (IndexError ''index 1 is out of bounds for axis 0 with size 1'')"
| "row0_col1 ((_ # r # _) # _) = Inr r"

text \<open>
  \<^verbatim>\<open>3*(...)\<close>: the product of the Python integer 3 and a numpy scalar. Its dtype
  depends on the installed numpy. Before NumPy 2.0 the integer counts as an \<^verbatim>\<open>int64\<close>,
  and the product is a \<^verbatim>\<open>float64\<close> for either dtype of the scalar; from NumPy 2.0 on the
  integer takes the dtype of the scalar, so that the product of a \<^verbatim>\<open>float32\<close> is a
  \<^verbatim>\<open>float32\<close>. The number 3 is exact in both formats.
\<close>

datatype numpy = NumPy1 | NumPy2

fun result_dtype :: "numpy \<Rightarrow> dtype \<Rightarrow> dtype" where
  "result_dtype NumPy1 dt = Float64"
| "result_dtype NumPy2 dt = dt"

fun times3 :: "dtype \<Rightarrow> pyfloat \<Rightarrow> pyfloat" where
  "times3 Float64 r = fmul (Finite 3) r"
| "times3 Float32 r = fmul32 (Finite 3) r"

text \<open>
  The body of the \<^verbatim>\<open>try\<close> block. The preprocessor and the model are objects loaded from
  disk: \<open>transform\<close> and \<open>predict_proba\<close> stand for their methods, each returning
  either the exception it raises or its result; \<open>np\<close> says which numpy is installed.
\<close>

definition score_try ::
  "numpy \<Rightarrow> ((string \<times> pyval) list \<Rightarrow> py_exn + 'x) \<Rightarrow>
   ('x \<Rightarrow> py_exn + dtype \<times> pyfloat list list) \<Rightarrow>
   (string \<times> pyval) list \<Rightarrow> py_exn + pyfloat" where
  "score_try np transform predict_proba df =
     (case transform df of
        Inl e \<Rightarrow> Inl e
      | Inr X \<Rightarrow>
          (case predict_proba X of
             Inl e \<Rightarrow> Inl e
           | Inr (dt, P) \<Rightarrow>
               (case row0_col1 P of
                  Inl e \<Rightarrow> Inl e
                | Inr r \<Rightarrow> Inr (times3 (result_dtype np dt) r))))"

text \<open>
  The handler: \<^verbatim>\<open>st.error(f"Failed during transform or predict: {e}")\<close>, then
  \<^verbatim>\<open>st.stop()\<close>, which ends this run of the script.
\<close>

datatype scoring_error = TransformFailed string

definition score ::
  "numpy \<Rightarrow> ((string \<times> pyval) list \<Rightarrow> py_exn + 'x) \<Rightarrow>
   ('x \<Rightarrow> py_exn + dtype \<times> pyfloat list list) \<Rightarrow>
   (string \<times> pyval) list \<Rightarrow> scoring_error + pyfloat" where
  "score np transform predict_proba df =
     (case score_try np transform predict_proba df of
        Inl e \<Rightarrow> Inl (TransformFailed (''Failed during transform or predict: '' @ str_exn e))
      | Inr proba \<Rightarrow> Inr proba)"

text \<open>The whole of the \<^verbatim>\<open>Calculate Risk\<close> branch, from the dictionary to the risk level.\<close>

definition calculate ::
  "numpy \<Rightarrow> ((string \<times> pyval) list \<Rightarrow> py_exn + 'x) \<Rightarrow>
   ('x \<Rightarrow> py_exn + dtype \<times> pyfloat list list) \<Rightarrow>
   (string \<times> pyval) list \<Rightarrow> scoring_error + pyfloat \<times> risk" where
  "calculate np transform predict_proba input_data =
     (case score np transform predict_proba (input_df input_data) of
        Inl err \<Rightarrow> Inl err
      | Inr proba \<Rightarrow> Inr (proba, risk_level proba))"

section \<open>Facts about the float model\<close>

lemma pow2_pos: "0 < pow2 e"
  by (simp add: pow2_def)

lemma pow2_Suc: "pow2 (e + 1) = 2 * pow2 e"
proof (cases "0 \<le> e")
  case True
  then show ?thesis by (simp add: pow2_def nat_add_distrib)
next
  case False
  then have "nat (- e) = Suc (nat (- (e + 1)))" by simp
  with False show ?thesis
    by (cases "e + 1 = 0") (simp_all add: pow2_def)
qed

lemma ilog2_bounds:
  assumes "0 < a"
  shows "pow2 (ilog2 a) \<le> a \<and> a < pow2 (ilog2 a + 1)"
proof (cases "1 \<le> a")
  case True
  define n where "n = \<lfloor>a\<rfloor>"
  have n1: "1 \<le> n" using True by (simp add: n_def le_floor_iff)
  then have npos: "0 < n" by simp
  have b1: "1 \<le> bitlen n" using npos by (simp add: bitlen_alt_def)
  from bitlen_bounds [OF npos]
  have lo: "2 ^ nat (bitlen n - 1) \<le> n" and hi: "n < 2 ^ nat (bitlen n)" by simp_all
  have il: "ilog2 a = bitlen n - 1" using True by (simp add: ilog2_def n_def)
  have "(of_int (2 ^ nat (bitlen n - 1)) :: rat) \<le> of_int n" using lo by (simp only: of_int_le_iff)
  also have "\<dots> \<le> a" by (simp add: n_def)
  finally have A: "pow2 (ilog2 a) \<le> a" using b1 by (simp add: il pow2_def)
  have "n + 1 \<le> 2 ^ nat (bitlen n)" using hi by simp
  then have "(of_int (n + 1) :: rat) \<le> of_int (2 ^ nat (bitlen n))" by (simp only: of_int_le_iff)
  moreover have "a < of_int (n + 1)" using floor_correct [of a] by (simp add: n_def)
  ultimately have B: "a < pow2 (ilog2 a + 1)" using b1 by (simp add: il pow2_def)
  from A B show ?thesis ..
next
  case False
  define N where "N = \<lceil>1 / a\<rceil>"
  define k where "k = bitlen (N - 1)"
  have inv1: "1 < 1 / a" using False assms by simp
  have N2: "2 \<le> N" using inv1 unfolding N_def by (simp add: le_ceiling_iff)
  then have Npos: "0 < N - 1" by simp
  have k1: "1 \<le> k" using Npos by (simp add: k_def bitlen_alt_def)
  from bitlen_bounds [OF Npos]
  have lo: "2 ^ nat (k - 1) \<le> N - 1" and hi: "N - 1 < 2 ^ nat k" by (simp_all add: k_def)
  have il: "ilog2 a = - k" using False by (simp add: ilog2_def N_def k_def)
  have "N \<le> 2 ^ nat k" using hi by simp
  then have "(of_int N :: rat) \<le> of_int (2 ^ nat k)" by (simp only: of_int_le_iff)
  also have "(of_int (2 ^ nat k) :: rat) = 2 ^ nat k" by simp
  finally have "(of_int N :: rat) \<le> 2 ^ nat k" .
  moreover have "1 / a \<le> of_int N" by (simp add: N_def)
  ultimately have "1 / a \<le> 2 ^ nat k" by (rule order_trans [rotated])
  then have "1 \<le> 2 ^ nat k * a" using assms by (simp add: field_simps)
  then have A: "pow2 (ilog2 a) \<le> a" using k1 by (simp add: il pow2_def field_simps)
  have "(of_int (2 ^ nat (k - 1)) :: rat) \<le> of_int (N - 1)" using lo by (simp only: of_int_le_iff)
  moreover have "(of_int (2 ^ nat (k - 1)) :: rat) = 2 ^ nat (k - 1)" by simp
  ultimately have "(2 ^ nat (k - 1) :: rat) \<le> of_int (N - 1)" by simp
  moreover have "of_int (N - 1) < 1 / a"
    using ceiling_correct [of "1 / a"] by (simp add: N_def)
  ultimately have "2 ^ nat (k - 1) < 1 / a" by (rule le_less_trans)
  then have lt: "a * 2 ^ nat (k - 1) < 1" using assms by (simp add: field_simps)
  have B: "a < pow2 (ilog2 a + 1)"
  proof (cases "k = 1")
    case True
    then show ?thesis using lt by (simp add: il pow2_def)
  next
    case False
    then have "nat (k - 1) = nat (- (- k + 1))" "\<not> 0 \<le> - k + 1" using k1 by simp_all
    then show ?thesis using lt by (simp add: il pow2_def field_simps)
  qed
  from A B show ?thesis ..
qed

lemma pow2_mono:
  assumes "d \<le> e"
  shows "pow2 d \<le> pow2 e"
proof -
  have "pow2 d \<le> pow2 (d + int n)" for n
  proof (induction n)
    case 0
    show ?case by simp
  next
    case (Suc n)
    have "d + int (Suc n) = d + int n + 1" by simp
    then have "pow2 (d + int (Suc n)) = 2 * pow2 (d + int n)"
      by (simp only: pow2_Suc)
    with Suc pow2_pos [of "d + int n"] show ?case by simp
  qed
  from this [of "nat (e - d)"] assms show ?thesis by simp
qed

text \<open>The overflow test of \<open>round_double\<close> is the comparison with \<open>2^1024\<close>.\<close>

lemma overflow_test:
  assumes "0 < r"
  shows "(1024 \<le> ilog2 r) = (pow2 1024 \<le> r)"
proof
  assume "1024 \<le> ilog2 r"
  then have "pow2 1024 \<le> pow2 (ilog2 r)" by (rule pow2_mono)
  with ilog2_bounds [OF assms] show "pow2 1024 \<le> r" by simp
next
  assume h: "pow2 1024 \<le> r"
  show "1024 \<le> ilog2 r"
  proof (rule ccontr)
    assume "\<not> 1024 \<le> ilog2 r"
    then have "ilog2 r + 1 \<le> 1024" by simp
    then have "pow2 (ilog2 r + 1) \<le> pow2 1024" by (rule pow2_mono)
    with ilog2_bounds [OF assms] h show False by simp
  qed
qed

lemma round_half_even_near: "\<bar>x - of_int (round_half_even x)\<bar> \<le> 1 / 2"
proof -
  define f where "f = \<lfloor>x\<rfloor>"
  have "of_int f \<le> x" "x < of_int f + 1"
    using floor_correct [of x] by (simp_all add: f_def)
  then show ?thesis
    unfolding round_half_even_def Let_def f_def [symmetric]
    by (simp add: abs_le_iff)
qed

lemma ilog2_nonpos:
  assumes "r \<le> 0"
  shows "ilog2 r = 0"
proof -
  have "1 / r \<le> 0" using assms by (simp add: divide_nonneg_nonpos)
  then have "\<lceil>1 / r\<rceil> \<le> 0" by (simp add: ceiling_le_iff)
  then have "\<lceil>1 / r\<rceil> - 1 \<le> 0" by linarith
  then have "bitlen (\<lceil>1 / r\<rceil> - 1) = 0" by (simp only: bitlen_eq_zero_iff)
  moreover have "\<not> 1 \<le> r" using assms by simp
  ultimately show ?thesis by (simp only: ilog2_def if_False)
qed

lemma ilog2_ge_iff:
  assumes "0 < r"
  shows "(k \<le> ilog2 r) = (pow2 k \<le> r)"
proof
  assume "k \<le> ilog2 r"
  then have "pow2 k \<le> pow2 (ilog2 r)" by (rule pow2_mono)
  with ilog2_bounds [OF assms] show "pow2 k \<le> r" by simp
next
  assume h: "pow2 k \<le> r"
  show "k \<le> ilog2 r"
  proof (rule ccontr)
    assume "\<not> k \<le> ilog2 r"
    then have "ilog2 r + 1 \<le> k" by simp
    then have "pow2 (ilog2 r + 1) \<le> pow2 k" by (rule pow2_mono)
    with ilog2_bounds [OF assms] h show False by simp
  qed
qed

lemma ilog2_le:
  assumes "0 < a" and "a \<le> pow2 k"
  shows "ilog2 a \<le> k"
proof (rule ccontr)
  assume "\<not> ilog2 a \<le> k"
  then have "k + 1 \<le> ilog2 a" by simp
  then have "pow2 (k + 1) \<le> a" using ilog2_ge_iff [OF assms(1)] by simp
  then have "2 * pow2 k \<le> a" by (simp add: pow2_Suc)
  with assms(2) pow2_pos [of k] show False by simp
qed

lemma scaled_round_error:
  assumes "0 < s"
  shows "\<bar>a - of_int (round_half_even (a / s)) * s\<bar> \<le> s / 2"
proof -
  define m where "m = round_half_even (a / s)"
  have "\<bar>a / s - of_int m\<bar> \<le> 1 / 2"
    unfolding m_def by (rule round_half_even_near)
  then have "\<bar>a / s - of_int m\<bar> * s \<le> 1 / 2 * s"
    using assms by (simp only: mult_le_cancel_right_pos)
  moreover have "\<bar>a / s - of_int m\<bar> * s = \<bar>(a / s - of_int m) * s\<bar>"
    using assms by (simp add: abs_mult)
  moreover have "(a / s - of_int m) * s = a - of_int m * s"
    using assms by (simp add: field_simps)
  ultimately show ?thesis by (simp add: m_def)
qed

lemma no_overflow:
  assumes "0 < a" and "a \<le> pow2 k" and "e \<le> k" and "0 \<le> k"
  shows "\<not> k + 1 \<le> ilog2 (of_int (round_half_even (a / pow2 e)) * pow2 e)"
proof -
  define r where "r = of_int (round_half_even (a / pow2 e)) * pow2 e"
  show ?thesis
  proof (cases "0 < r")
    case False
    then have "ilog2 r = 0" by (simp add: ilog2_nonpos)
    with assms(4) show ?thesis by (simp add: r_def)
  next
    case True
    have "\<bar>a - r\<bar> \<le> pow2 e / 2"
      unfolding r_def using pow2_pos [of e] by (rule scaled_round_error)
    then have "r \<le> a + pow2 e / 2" by linarith
    moreover have "pow2 e \<le> pow2 k" using assms(3) by (rule pow2_mono)
    ultimately have "r \<le> pow2 k + pow2 k / 2" using assms(2) by simp
    then have "r < 2 * pow2 k" using pow2_pos [of k] by simp
    then have "\<not> pow2 (k + 1) \<le> r" by (simp add: pow2_Suc)
    then show ?thesis using ilog2_ge_iff [OF True, of "k + 1"] by (simp add: r_def)
  qed
qed

lemma round_double_near:
  assumes "\<bar>q\<bar> \<le> pow2 1023"
  shows "\<exists>v. round_double q = Finite v \<and>
           \<bar>v - q\<bar> \<le> pow2 (max (ilog2 \<bar>q\<bar> - 52) (- 1074)) / 2"
proof (cases "q = 0")
  case True
  then show ?thesis using pow2_pos [of "max (ilog2 \<bar>q\<bar> - 52) (- 1074)"]
    by (simp add: round_double_def)
next
  case False
  define e where "e = max (ilog2 \<bar>q\<bar> - 52) (- 1074)"
  define r where "r = of_int (round_half_even (\<bar>q\<bar> / pow2 e)) * pow2 e"
  have pos: "0 < \<bar>q\<bar>" using False by simp
  have "ilog2 \<bar>q\<bar> \<le> 1023" using pos assms by (rule ilog2_le)
  then have "e \<le> 1023" by (simp add: e_def)
  with pos assms have "\<not> 1023 + 1 \<le> ilog2 r"
    unfolding r_def by (intro no_overflow) simp_all
  then have v: "round_double q = Finite (if 0 < q then r else - r)"
    using False by (simp add: round_double_def Let_def e_def r_def)
  have "\<bar>\<bar>q\<bar> - r\<bar> \<le> pow2 e / 2"
    unfolding r_def using pow2_pos [of e] by (rule scaled_round_error)
  moreover have "\<bar>(if 0 < q then r else - r) - q\<bar> = \<bar>\<bar>q\<bar> - r\<bar>"
    using False by (cases "0 < q") simp_all
  ultimately show ?thesis using v by (simp add: e_def)
qed

lemma round_single_near:
  assumes "\<bar>q\<bar> \<le> pow2 127"
  shows "\<exists>v. round_single q = Finite v \<and>
           \<bar>v - q\<bar> \<le> pow2 (max (ilog2 \<bar>q\<bar> - 23) (- 149)) / 2"
proof (cases "q = 0")
  case True
  then show ?thesis using pow2_pos [of "max (ilog2 \<bar>q\<bar> - 23) (- 149)"]
    by (simp add: round_single_def)
next
  case False
  define e where "e = max (ilog2 \<bar>q\<bar> - 23) (- 149)"
  define r where "r = of_int (round_half_even (\<bar>q\<bar> / pow2 e)) * pow2 e"
  have pos: "0 < \<bar>q\<bar>" using False by simp
  have "ilog2 \<bar>q\<bar> \<le> 127" using pos assms by (rule ilog2_le)
  then have "e \<le> 127" by (simp add: e_def)
  with pos assms have "\<not> 127 + 1 \<le> ilog2 r"
    unfolding r_def by (intro no_overflow) simp_all
  then have v: "round_single q = Finite (if 0 < q then r else - r)"
    using False by (simp add: round_single_def Let_def e_def r_def)
  have "\<bar>\<bar>q\<bar> - r\<bar> \<le> pow2 e / 2"
    unfolding r_def using pow2_pos [of e] by (rule scaled_round_error)
  moreover have "\<bar>(if 0 < q then r else - r) - q\<bar> = \<bar>\<bar>q\<bar> - r\<bar>"
    using False by (cases "0 < q") simp_all
  ultimately show ?thesis using v by (simp add: e_def)
qed

lemma times3_nonfinite:
  "times3 dt NaN = NaN \<and> times3 dt PosInf = PosInf \<and> times3 dt NegInf = NegInf"
  by (cases dt) simp_all

section \<open>The thresholds as numbers\<close>

lemma float_lit_006: "float_lit (6 / 100) = Finite (1080863910568919 / 18014398509481984)"
  unfolding float_lit_def by code_simp

lemma float_lit_024: "float_lit (24 / 100) = Finite (1080863910568919 / 4503599627370496)"
  unfolding float_lit_def by code_simp

lemma float_lit_018: "float_lit (18 / 100) = Finite (3242591731706757 / 18014398509481984)"
  unfolding float_lit_def by code_simp

lemma float_lit_072: "float_lit (72 / 100) = Finite (3242591731706757 / 4503599627370496)"
  unfolding float_lit_def by code_simp

lemma MODERATE_value:
  "MODERATE_RISK_THRESHOLD = Finite (3242591731706757 / 18014398509481984)"
  unfolding MODERATE_RISK_THRESHOLD_def float_lit_def by code_simp

lemma HIGH_value:
  "HIGH_RISK_THRESHOLD = Finite (3242591731706757 / 4503599627370496)"
  unfolding HIGH_RISK_THRESHOLD_def float_lit_def by code_simp

lemma risk_level_Finite:
  "risk_level (Finite q) =
     (if 3242591731706757 / 4503599627370496 \<le> q then HighRisk
      else if 3242591731706757 / 18014398509481984 \<le> q then ModerateRisk
      else LowRisk)"
  by (simp add: risk_level_def MODERATE_value HIGH_value)

lemma risk_level_PosInf: "risk_level PosInf = HighRisk"
  by (simp add: risk_level_def HIGH_value)

lemma risk_level_NegInf: "risk_level NegInf = LowRisk"
  by (simp add: risk_level_def MODERATE_value HIGH_value)

lemma risk_level_NaN: "risk_level NaN = LowRisk"
  by (simp add: risk_level_def)

lemma float_lit_09: "float_lit (9 / 10) = Finite (8106479329266893 / 9007199254740992)"
  unfolding float_lit_def by code_simp

lemma float_lit_03: "float_lit (3 / 10) = Finite (5404319552844595 / 18014398509481984)"
  unfolding float_lit_def by code_simp

lemma float_lit_01: "float_lit (1 / 10) = Finite (3602879701896397 / 36028797018963968)"
  unfolding float_lit_def by code_simp

lemma float_lit_01799999:
  "float_lit (1799999 / 10000000) = Finite (1621294965133453 / 9007199254740992)"
  unfolding float_lit_def by code_simp

lemma float_lit_07199999:
  "float_lit (7199999 / 10000000) = Finite (6485182562693589 / 9007199254740992)"
  unfolding float_lit_def by code_simp

section \<open>Classification\<close>

text \<open>
  C1. The risk level is defined for every float, by two comparisons with fixed
  thresholds, each inclusive: a probability that is at least the high threshold is High
  Risk; otherwise one that is at least the moderate threshold is Moderate Risk; otherwise
  (a NaN included) it is Low Risk. The probability itself is compared, nothing rescales
  it: a finite probability is High Risk from the double \<^verbatim>\<open>0.72\<close> on and Moderate Risk
  from the double \<^verbatim>\<open>0.18\<close> on, plus infinity is High Risk, minus infinity and NaN are
  Low Risk.
\<close>

theorem risk_level_total:
  "(fge p HIGH_RISK_THRESHOLD \<longrightarrow> risk_level p = HighRisk) \<and>
   (\<not> fge p HIGH_RISK_THRESHOLD \<and> fge p MODERATE_RISK_THRESHOLD \<longrightarrow> risk_level p = ModerateRisk) \<and>
   (\<not> fge p HIGH_RISK_THRESHOLD \<and> \<not> fge p MODERATE_RISK_THRESHOLD \<longrightarrow> risk_level p = LowRisk) \<and>
   risk_level (Finite q) =
     (if 3242591731706757 / 4503599627370496 \<le> q then HighRisk
      else if 3242591731706757 / 18014398509481984 \<le> q then ModerateRisk
      else LowRisk) \<and>
   risk_level PosInf = HighRisk \<and> risk_level NegInf = LowRisk \<and> risk_level NaN = LowRisk"
proof -
  have "risk_level p =
     (if fge p HIGH_RISK_THRESHOLD then HighRisk
      else if fge p MODERATE_RISK_THRESHOLD then ModerateRisk else LowRisk)"
    by (rule risk_level_def)
  then show ?thesis
    using risk_level_Finite [of q] risk_level_PosInf risk_level_NegInf risk_level_NaN
    by (simp split: if_splits)
qed

theorem risk_level_total_witness:
  "fge (float_lit (9 / 10)) HIGH_RISK_THRESHOLD \<and> risk_level (float_lit (9 / 10)) = HighRisk \<and>
   \<not> fge (float_lit (3 / 10)) HIGH_RISK_THRESHOLD \<and> fge (float_lit (3 / 10)) MODERATE_RISK_THRESHOLD \<and>
   risk_level (float_lit (3 / 10)) = ModerateRisk \<and>
   \<not> fge (float_lit (1 / 10)) HIGH_RISK_THRESHOLD \<and> \<not> fge (float_lit (1 / 10)) MODERATE_RISK_THRESHOLD \<and>
   risk_level (float_lit (1 / 10)) = LowRisk"
  using risk_level_total [of "float_lit (9 / 10)"] risk_level_total [of "float_lit (3 / 10)"]
    risk_level_total [of "float_lit (1 / 10)"]
  by (simp add: float_lit_09 float_lit_03 float_lit_01 MODERATE_value HIGH_value)

text \<open>
  C3. In double arithmetic \<^verbatim>\<open>0.06*3\<close> is the double \<^verbatim>\<open>0.18\<close> and \<^verbatim>\<open>0.24*3\<close> is the double
  \<^verbatim>\<open>0.72\<close>; the probabilities \<^verbatim>\<open>0.18\<close> and \<^verbatim>\<open>0.7199999\<close> are Moderate Risk,
  \<^verbatim>\<open>0.1799999\<close> is Low Risk and \<^verbatim>\<open>0.72\<close> is High Risk.
\<close>

theorem thresholds_exact:
  "MODERATE_RISK_THRESHOLD = float_lit (18 / 100) \<and>
   HIGH_RISK_THRESHOLD = float_lit (72 / 100) \<and>
   risk_level (float_lit (18 / 100)) = ModerateRisk \<and>
   risk_level (float_lit (1799999 / 10000000)) = LowRisk \<and>
   risk_level (float_lit (72 / 100)) = HighRisk \<and>
   risk_level (float_lit (7199999 / 10000000)) = ModerateRisk"
proof -
  have "risk_level (float_lit (18 / 100)) = ModerateRisk"
    unfolding float_lit_018 risk_level_Finite by simp
  moreover have "risk_level (float_lit (1799999 / 10000000)) = LowRisk"
    unfolding float_lit_01799999 risk_level_Finite by simp
  moreover have "risk_level (float_lit (72 / 100)) = HighRisk"
    unfolding float_lit_072 risk_level_Finite by simp
  moreover have "risk_level (float_lit (7199999 / 10000000)) = ModerateRisk"
    unfolding float_lit_07199999 risk_level_Finite by simp
  moreover have "MODERATE_RISK_THRESHOLD = float_lit (18 / 100)"
    unfolding float_lit_018 by (rule MODERATE_value)
  moreover have "HIGH_RISK_THRESHOLD = float_lit (72 / 100)"
    unfolding float_lit_072 by (rule HIGH_value)
  ultimately show ?thesis by blast
qed

text \<open>
  C4. The risk level is monotone: when \<^verbatim>\<open>x < y\<close> holds for two floats, the rank of the
  risk level of \<open>x\<close> is at most that of \<open>y\<close>.
\<close>

theorem risk_level_mono:
  "flt x y \<Longrightarrow> tier_rank (risk_level x) \<le> tier_rank (risk_level y)"
  by (cases x; cases y)
     (simp_all add: risk_level_Finite risk_level_PosInf risk_level_NegInf risk_level_NaN)

theorem risk_level_mono_witness:
  "flt (float_lit (1 / 10)) (float_lit (9 / 10)) \<and>
   tier_rank (risk_level (float_lit (1 / 10))) \<le> tier_rank (risk_level (float_lit (9 / 10)))"
proof -
  have h: "flt (float_lit (1 / 10)) (float_lit (9 / 10))"
    by (simp add: float_lit_01 float_lit_09)
  from h risk_level_mono [OF h] show ?thesis by simp
qed

text \<open>
  C10. Both comparisons are false for a NaN, so a NaN is Low Risk. A value that cannot be
  read as a number becomes NaN in the data frame, and when the model returns NaN as the
  probability of class 1, the scaled probability is NaN and the risk level shown is Low Risk.
\<close>

theorem nan_is_low:
  "\<not> fge NaN HIGH_RISK_THRESHOLD \<and> \<not> fge NaN MODERATE_RISK_THRESHOLD \<and>
   risk_level NaN = LowRisk \<and>
   to_numeric_coerce (PyOther s) = PyFloat NaN \<and>
   (transform (input_df d) = Inr X \<and> predict_proba X = Inr (dt, [a, NaN] # rows) \<longrightarrow>
      calculate np transform predict_proba d = Inr (NaN, LowRisk))"
  by (simp add: risk_level_NaN calculate_def score_def score_try_def times3_nonfinite)

theorem nan_is_low_witness:
  "calculate NumPy2 (\<lambda>df. Inr df) (\<lambda>X. Inr (Float32, [[Finite 1, NaN]])) [(''age'', PyOther ''abc'')]
     = Inr (NaN, LowRisk) \<and>
   calculate NumPy1 (\<lambda>df. Inr df) (\<lambda>X. Inr (Float64, [[Finite 1, NaN]])) [(''age'', PyOther ''abc'')]
     = Inr (NaN, LowRisk)"
  using
    nan_is_low [where transform = "\<lambda>df. Inr df" and d = "[(''age'', PyOther ''abc'')]"
      and X = "input_df [(''age'', PyOther ''abc'')]"
      and predict_proba = "\<lambda>X. Inr (Float32, [[Finite 1, NaN]])" and dt = Float32
      and a = "Finite 1" and rows = "[]" and np = NumPy2]
    nan_is_low [where transform = "\<lambda>df. Inr df" and d = "[(''age'', PyOther ''abc'')]"
      and X = "input_df [(''age'', PyOther ''abc'')]"
      and predict_proba = "\<lambda>X. Inr (Float64, [[Finite 1, NaN]])" and dt = Float64
      and a = "Finite 1" and rows = "[]" and np = NumPy1]
  by simp

section \<open>The input dictionary and the data frame\<close>

text \<open>
  C5. The answers of the two select boxes are encoded as 1 for \<^verbatim>\<open>'Yes'\<close> and 2 for
  \<^verbatim>\<open>'No'\<close>; the encoded value is always 1 or 2, and it is what the dictionary holds
  under \<^verbatim>\<open>'p1'\<close> and \<^verbatim>\<open>'p13'\<close>.
\<close>

theorem yes_no_encoding:
  "(p1 f = ''Yes'' \<longrightarrow> p1_encoded f = 1) \<and> (p1 f = ''No'' \<longrightarrow> p1_encoded f = 2) \<and>
   (p13 f = ''Yes'' \<longrightarrow> p13_encoded f = 1) \<and> (p13 f = ''No'' \<longrightarrow> p13_encoded f = 2) \<and>
   p1_encoded f \<in> {1, 2} \<and> p13_encoded f \<in> {1, 2} \<and>
   map_of (user_inputs f) ''p1'' = Some (PyInt (p1_encoded f)) \<and>
   map_of (user_inputs f) ''p13'' = Some (PyInt (p13_encoded f))"
  by (simp add: p1_encoded_def p13_encoded_def user_inputs_def)

theorem yes_no_encoding_witness:
  "p1_encoded \<lparr>age = 45, bmi = Finite (57 / 2), hr = 72, dbp = 80, sbp = 120, b8 = Finite (26 / 5),
      m14 = Finite (191 / 2), d1 = 3, d3 = 5, p1 = ''Yes'', p13 = ''No''\<rparr> = 1 \<and>
   p13_encoded \<lparr>age = 45, bmi = Finite (57 / 2), hr = 72, dbp = 80, sbp = 120, b8 = Finite (26 / 5),
      m14 = Finite (191 / 2), d1 = 3, d3 = 5, p1 = ''Yes'', p13 = ''No''\<rparr> = 2 \<and>
   p1_encoded \<lparr>age = 45, bmi = Finite (57 / 2), hr = 72, dbp = 80, sbp = 120, b8 = Finite (26 / 5),
      m14 = Finite (191 / 2), d1 = 3, d3 = 5, p1 = ''No'', p13 = ''Yes''\<rparr> = 2 \<and>
   p13_encoded \<lparr>age = 45, bmi = Finite (57 / 2), hr = 72, dbp = 80, sbp = 120, b8 = Finite (26 / 5),
      m14 = Finite (191 / 2), d1 = 3, d3 = 5, p1 = ''No'', p13 = ''Yes''\<rparr> = 1"
  using
    yes_no_encoding [of "\<lparr>age = 45, bmi = Finite (57 / 2), hr = 72, dbp = 80, sbp = 120,
      b8 = Finite (26 / 5), m14 = Finite (191 / 2), d1 = 3, d3 = 5, p1 = ''Yes'', p13 = ''No''\<rparr>"]
    yes_no_encoding [of "\<lparr>age = 45, bmi = Finite (57 / 2), hr = 72, dbp = 80, sbp = 120,
      b8 = Finite (26 / 5), m14 = Finite (191 / 2), d1 = 3, d3 = 5, p1 = ''No'', p13 = ''Yes''\<rparr>"]
  by simp

lemma coerce_columns_map:
  "coerce_columns df = map (\<lambda>(c, v). (c, to_numeric_coerce v)) df"
  by (induction df rule: coerce_columns.induct) simp_all

lemma input_df_map:
  "input_df d =
     map (\<lambda>c. (c, to_numeric_coerce (case map_of d c of Some v \<Rightarrow> v | None \<Rightarrow> PyFloat NaN)))
       columns_ordered"
  by (simp add: input_df_def DataFrame_def coerce_columns_map)

lemma distinct_keys_user_inputs: "distinct (map fst (user_inputs f))"
  by (simp add: user_inputs_def)

text \<open>
  C6. The one-row data frame built from the dictionary of \<^verbatim>\<open>user_inputs\<close> lists the eleven
  values in the order p1, p13, age, bmi, HR, DBP, b8, m14, SBP, d1, d3; its columns are
  in that order for every dictionary, and a dictionary with the same items in another
  order gives the same data frame.
\<close>

theorem canonical_column_order:
  "input_df (user_inputs f) =
     [(''p1'', PyInt (p1_encoded f)), (''p13'', PyInt (p13_encoded f)), (''age'', PyInt (age f)),
      (''bmi'', PyFloat (bmi f)), (''HR'', PyInt (hr f)), (''DBP'', PyInt (dbp f)),
      (''b8'', PyFloat (b8 f)), (''m14'', PyFloat (m14 f)), (''SBP'', PyInt (sbp f)),
      (''d1'', PyInt (d1 f)), (''d3'', PyInt (d3 f))] \<and>
   map fst (input_df d) = columns_ordered \<and>
   (distinct (map fst d) \<and> set d = set (user_inputs f) \<longrightarrow> input_df d = input_df (user_inputs f))"
proof (intro conjI impI)
  show "input_df (user_inputs f) =
     [(''p1'', PyInt (p1_encoded f)), (''p13'', PyInt (p13_encoded f)), (''age'', PyInt (age f)),
      (''bmi'', PyFloat (bmi f)), (''HR'', PyInt (hr f)), (''DBP'', PyInt (dbp f)),
      (''b8'', PyFloat (b8 f)), (''m14'', PyFloat (m14 f)), (''SBP'', PyInt (sbp f)),
      (''d1'', PyInt (d1 f)), (''d3'', PyInt (d3 f))]"
    by (simp add: input_df_map columns_ordered_def user_inputs_def)
  show "map fst (input_df d) = columns_ordered"
    by (simp add: input_df_map comp_def)
  assume "distinct (map fst d) \<and> set d = set (user_inputs f)"
  then have "map_of d = map_of (user_inputs f)"
    using distinct_keys_user_inputs [of f] by (simp add: map_of_inject_set)
  then show "input_df d = input_df (user_inputs f)"
    by (simp add: input_df_map)
qed

theorem canonical_column_order_witness:
  "distinct (map fst (rev (user_inputs \<lparr>age = 45, bmi = Finite (57 / 2), hr = 72, dbp = 80, sbp = 120,
      b8 = Finite (26 / 5), m14 = Finite (191 / 2), d1 = 3, d3 = 5, p1 = ''Yes'', p13 = ''No''\<rparr>))) \<and>
   input_df (rev (user_inputs \<lparr>age = 45, bmi = Finite (57 / 2), hr = 72, dbp = 80, sbp = 120,
      b8 = Finite (26 / 5), m14 = Finite (191 / 2), d1 = 3, d3 = 5, p1 = ''Yes'', p13 = ''No''\<rparr>)) =
     [(''p1'', PyInt 1), (''p13'', PyInt 2), (''age'', PyInt 45), (''bmi'', PyFloat (Finite (57 / 2))),
      (''HR'', PyInt 72), (''DBP'', PyInt 80), (''b8'', PyFloat (Finite (26 / 5))),
      (''m14'', PyFloat (Finite (191 / 2))), (''SBP'', PyInt 120), (''d1'', PyInt 3), (''d3'', PyInt 5)]"
proof -
  let ?f = "\<lparr>age = 45, bmi = Finite (57 / 2), hr = 72, dbp = 80, sbp = 120,
      b8 = Finite (26 / 5), m14 = Finite (191 / 2), d1 = 3, d3 = 5, p1 = ''Yes'', p13 = ''No''\<rparr>"
  have h1: "distinct (map fst (rev (user_inputs ?f)))"
    by (simp add: user_inputs_def)
  have h2: "set (rev (user_inputs ?f)) = set (user_inputs ?f)"
    by (rule set_rev)
  from h1 h2 canonical_column_order [of ?f "rev (user_inputs ?f)"]
  show ?thesis by (simp add: p1_encoded_def p13_encoded_def)
qed

section \<open>Loading\<close>

text \<open>
  Whichever of the two files is absent, \<^verbatim>\<open>load_model\<close> shows the same text, which
  names both files, and returns the same pair \<^verbatim>\<open>(None, None)\<close> that it returns when
  deserialisation fails: neither the text nor the returned value tells which file is missing.
\<close>

theorem load_model_same_report_counterexample:
  "load_model False True (Inr () :: py_exn + unit) (Inr () :: py_exn + unit) =
     ([StError ''validated_preprocessor.joblib or validated_model.joblib not found''], None, None) \<and>
   load_model True False (Inr () :: py_exn + unit) (Inr () :: py_exn + unit) =
     ([StError ''validated_preprocessor.joblib or validated_model.joblib not found''], None, None) \<and>
   snd (load_model True True (Inl (OtherException ''unsupported pickle'') :: py_exn + unit)
          (Inr () :: py_exn + unit)) = (None, None)"
  by (simp add: load_model_def load_model_try_def)

text \<open>
  C8, as the program has it. When either file is absent, \<^verbatim>\<open>load_model\<close> shows the one
  error \<^verbatim>\<open>validated_preprocessor.joblib or validated_model.joblib not found\<close> and returns
  \<^verbatim>\<open>(None, None)\<close>. When both exist and both loads succeed it returns the loaded pair and
  shows nothing; when a load raises it shows an error and returns \<^verbatim>\<open>(None, None)\<close>. In
  every case it returns one of these two shapes: no exception leaves it.
\<close>

theorem load_model_total:
  "(\<not> pe \<or> \<not> me \<longrightarrow>
      load_model pe me lp lm =
        ([StError ''validated_preprocessor.joblib or validated_model.joblib not found''], None, None)) \<and>
   (pe \<and> me \<and> lp = Inr p \<and> lm = Inr m \<longrightarrow> load_model pe me lp lm = ([], Some p, Some m)) \<and>
   (pe \<and> me \<and> (isl lp \<or> isl lm) \<longrightarrow>
      (\<exists>msg rest. load_model pe me lp lm = (StError msg # rest, None, None))) \<and>
   ((\<exists>p' m'. load_model pe me lp lm = ([], Some p', Some m')) \<or>
    (\<exists>msg rest. load_model pe me lp lm = (StError msg # rest, None, None)))"
  by (cases lp; cases lm)
     (auto simp: load_model_def load_model_try_def split: py_exn.splits)

theorem load_model_total_witness:
  "load_model True False (Inr () :: py_exn + unit) (Inr () :: py_exn + unit) =
     ([StError ''validated_preprocessor.joblib or validated_model.joblib not found''], None, None) \<and>
   load_model True True (Inr () :: py_exn + unit) (Inr () :: py_exn + unit) = ([], Some (), Some ()) \<and>
   (\<exists>msg rest. load_model True True (Inl (OtherException ''unsupported pickle'') :: py_exn + unit)
       (Inr () :: py_exn + unit) = (StError msg # rest, None, None))"
  using load_model_total [of True False "Inr ()" "Inr ()" "()" "()"]
    load_model_total [of True True "Inr ()" "Inr ()" "()" "()"]
    load_model_total [of True True "Inl (OtherException ''unsupported pickle'')" "Inr ()" "()" "()"]
  by simp

section \<open>Scoring\<close>

text \<open>
  C9. An exception raised by \<^verbatim>\<open>transform\<close>, by \<^verbatim>\<open>predict_proba\<close> or by the indexing of
  its result is caught: the outcome is the error whose message is
  \<^verbatim>\<open>Failed during transform or predict:\<close> followed by the text of the exception. When
  nothing is raised the outcome is the scaled probability.
\<close>

theorem exceptions_become_TransformFailed:
  "(transform df = Inl e \<longrightarrow>
      score np transform predict_proba df =
        Inl (TransformFailed (''Failed during transform or predict: '' @ str_exn e))) \<and>
   (transform df = Inr X \<and> predict_proba X = Inl e \<longrightarrow>
      score np transform predict_proba df =
        Inl (TransformFailed (''Failed during transform or predict: '' @ str_exn e))) \<and>
   (transform df = Inr X \<and> predict_proba X = Inr (dt, P) \<and> row0_col1 P = Inl e \<longrightarrow>
      score np transform predict_proba df =
        Inl (TransformFailed (''Failed during transform or predict: '' @ str_exn e))) \<and>
   (transform df = Inr X \<and> predict_proba X = Inr (dt, P) \<and> row0_col1 P = Inr r \<longrightarrow>
      score np transform predict_proba df = Inr (times3 (result_dtype np dt) r))"
  by (simp add: score_def score_try_def)

theorem exceptions_become_TransformFailed_witness:
  "score NumPy2 (\<lambda>df. Inl (OtherException ''columns are missing'') :: py_exn + unit)
      (\<lambda>X. Inr (Float64, [[Finite (1 / 2), Finite (1 / 2)]])) []
     = Inl (TransformFailed ''Failed during transform or predict: columns are missing'') \<and>
   score NumPy2 (\<lambda>df. Inr () :: py_exn + unit) (\<lambda>X. Inl (OtherException ''model is not fitted'')) []
     = Inl (TransformFailed ''Failed during transform or predict: model is not fitted'') \<and>
   score NumPy2 (\<lambda>df. Inr () :: py_exn + unit) (\<lambda>X. Inr (Float64, [[Finite 1]])) []
     = Inl (TransformFailed
         ''Failed during transform or predict: index 1 is out of bounds for axis 0 with size 1'') \<and>
   score NumPy2 (\<lambda>df. Inr () :: py_exn + unit) (\<lambda>X. Inr (Float64, [[Finite 1, NaN]])) [] = Inr NaN"
  using
    exceptions_become_TransformFailed [where np = NumPy2
      and transform = "\<lambda>df. Inl (OtherException ''columns are missing'') :: py_exn + unit"
      and df = "[]" and e = "OtherException ''columns are missing''"
      and predict_proba = "\<lambda>X. Inr (Float64, [[Finite (1 / 2), Finite (1 / 2)]])"]
    exceptions_become_TransformFailed [where np = NumPy2
      and transform = "\<lambda>df. Inr () :: py_exn + unit" and df = "[]" and X = "()"
      and e = "OtherException ''model is not fitted''"
      and predict_proba = "\<lambda>X. Inl (OtherException ''model is not fitted'')"]
    exceptions_become_TransformFailed [where np = NumPy2
      and transform = "\<lambda>df. Inr () :: py_exn + unit" and df = "[]" and X = "()"
      and e = "IndexError ''index 1 is out of bounds for axis 0 with size 1''"
      and predict_proba = "\<lambda>X. Inr (Float64, [[Finite 1]])" and dt = Float64 and P = "[[Finite 1]]"]
    exceptions_become_TransformFailed [where np = NumPy2
      and transform = "\<lambda>df. Inr () :: py_exn + unit" and df = "[]" and X = "()"
      and predict_proba = "\<lambda>X. Inr (Float64, [[Finite 1, NaN]])" and dt = Float64
      and P = "[[Finite 1, NaN]]" and r = NaN]
  by simp

lemma fmul_3_half: "fmul (Finite 3) (float_lit (1 / 2)) = Finite (3 / 2)"
  unfolding float_lit_def by code_simp

lemma fmul_3_03:
  "fmul (Finite 3) (float_lit (3 / 10)) = Finite (2026619832316723 / 2251799813685248)"
  unfolding float_lit_def by code_simp

lemma fmul32_3_01:
  "fmul32 (Finite 3) (Finite (13421773 / 134217728)) = Finite (5033165 / 16777216)"
  by code_simp

lemma round_single_01: "round_single (1 / 10) = Finite (13421773 / 134217728)"
  by code_simp

text \<open>
  With a model that returns the \<^verbatim>\<open>float64\<close> probabilities \<^verbatim>\<open>0.7\<close> and \<^verbatim>\<open>0.3\<close>, the
  score is the double product \<^verbatim>\<open>3*0.3\<close>, which is \<^verbatim>\<open>0.8999999999999999\<close> and not the
  double \<^verbatim>\<open>0.9\<close>, whichever numpy is installed.
\<close>

theorem scaling_counterexample:
  "score NumPy1 (\<lambda>df. Inr df) (\<lambda>X. Inr (Float64, [[float_lit (7 / 10), float_lit (3 / 10)]]))
     (input_df (user_inputs \<lparr>age = 45, bmi = float_lit (57 / 2), hr = 72, dbp = 80, sbp = 120,
        b8 = float_lit (26 / 5), m14 = float_lit (191 / 2), d1 = 3, d3 = 5, p1 = ''Yes'', p13 = ''No''\<rparr>))
     \<noteq> Inr (float_lit (9 / 10)) \<and>
   score NumPy2 (\<lambda>df. Inr df) (\<lambda>X. Inr (Float64, [[float_lit (7 / 10), float_lit (3 / 10)]]))
     (input_df (user_inputs \<lparr>age = 45, bmi = float_lit (57 / 2), hr = 72, dbp = 80, sbp = 120,
        b8 = float_lit (26 / 5), m14 = float_lit (191 / 2), d1 = 3, d3 = 5, p1 = ''Yes'', p13 = ''No''\<rparr>))
     \<noteq> Inr (float_lit (9 / 10))"
  by (simp add: score_def score_try_def fmul_3_03 float_lit_09)

text \<open>
  C2, as the program has it. The model returns a \<^verbatim>\<open>float64\<close> or a \<^verbatim>\<open>float32\<close> array and
  gives class 1 the probability \<open>r\<close>. The score is the floating-point product of 3 and
  \<open>r\<close>: the number \<open>3 r\<close> rounded to the nearest value (ties to even) of the format of
  the product, which is binary64, except that it is binary32 for a \<^verbatim>\<open>float32\<close> array
  under NumPy 2.0 or later. As long as \<open>3 r\<close> is at most \<open>2^1023\<close> in magnitude
  (\<open>2^127\<close> for binary32) the score is finite and at most half a unit in the last place away
  from \<open>3 r\<close>; a NaN or an infinity stays what it is. Nothing clamps the score: the double
  \<^verbatim>\<open>0.5\<close> gives \<^verbatim>\<open>1.5\<close>. The double \<^verbatim>\<open>0.3\<close> gives \<^verbatim>\<open>0.8999999999999999\<close>, and the
  \<^verbatim>\<open>float32\<close> nearest to \<^verbatim>\<open>0.1\<close> gives, in binary32, \<^verbatim>\<open>0.30000001192092896\<close>.
\<close>

theorem score_scales_by_three:
  "(transform df = Inr X \<and> predict_proba X = Inr (dt, [a, r] # rows) \<longrightarrow>
      score np transform predict_proba df = Inr (times3 (result_dtype np dt) r)) \<and>
   result_dtype np Float64 = Float64 \<and>
   result_dtype NumPy1 Float32 = Float64 \<and>
   result_dtype NumPy2 Float32 = Float32 \<and>
   times3 Float64 (Finite q) = round_double (3 * q) \<and>
   times3 Float32 (Finite q) = round_single (3 * q) \<and>
   (\<bar>3 * q\<bar> \<le> pow2 1023 \<longrightarrow>
      (\<exists>v. times3 Float64 (Finite q) = Finite v \<and>
           \<bar>v - 3 * q\<bar> \<le> pow2 (max (ilog2 \<bar>3 * q\<bar> - 52) (- 1074)) / 2)) \<and>
   (\<bar>3 * q\<bar> \<le> pow2 127 \<longrightarrow>
      (\<exists>v. times3 Float32 (Finite q) = Finite v \<and>
           \<bar>v - 3 * q\<bar> \<le> pow2 (max (ilog2 \<bar>3 * q\<bar> - 23) (- 149)) / 2)) \<and>
   times3 dt' NaN = NaN \<and> times3 dt' PosInf = PosInf \<and> times3 dt' NegInf = NegInf \<and>
   times3 Float64 (float_lit (1 / 2)) = Finite (3 / 2) \<and>
   times3 Float64 (float_lit (3 / 10)) = Finite (2026619832316723 / 2251799813685248) \<and>
   round_single (1 / 10) = Finite (13421773 / 134217728) \<and>
   times3 Float32 (Finite (13421773 / 134217728)) = Finite (5033165 / 16777216)"
proof -
  have score: "transform df = Inr X \<and> predict_proba X = Inr (dt, [a, r] # rows) \<longrightarrow>
      score np transform predict_proba df = Inr (times3 (result_dtype np dt) r)"
    by (simp add: score_def score_try_def)
  have dtypes: "result_dtype np Float64 = Float64"
    by (cases np) simp_all
  have d64: "\<bar>3 * q\<bar> \<le> pow2 1023 \<longrightarrow>
      (\<exists>v. times3 Float64 (Finite q) = Finite v \<and>
           \<bar>v - 3 * q\<bar> \<le> pow2 (max (ilog2 \<bar>3 * q\<bar> - 52) (- 1074)) / 2)"
    using round_double_near [of "3 * q"] by simp
  have d32: "\<bar>3 * q\<bar> \<le> pow2 127 \<longrightarrow>
      (\<exists>v. times3 Float32 (Finite q) = Finite v \<and>
           \<bar>v - 3 * q\<bar> \<le> pow2 (max (ilog2 \<bar>3 * q\<bar> - 23) (- 149)) / 2)"
    using round_single_near [of "3 * q"] by simp
  have vals: "times3 Float64 (float_lit (1 / 2)) = Finite (3 / 2)"
    "times3 Float64 (float_lit (3 / 10)) = Finite (2026619832316723 / 2251799813685248)"
    "times3 Float32 (Finite (13421773 / 134217728)) = Finite (5033165 / 16777216)"
    by (simp_all only: times3.simps fmul_3_half fmul_3_03 fmul32_3_01)
  from score dtypes d64 d32 vals times3_nonfinite [of dt'] round_single_01 show ?thesis
    by (simp only: times3.simps fmul.simps fmul32.simps result_dtype.simps simp_thms)
qed

theorem score_scales_by_three_witness:
  "score NumPy2 (\<lambda>df. Inr df)
      (\<lambda>X. Inr (Float32, [[Finite (7549747 / 8388608), Finite (13421773 / 134217728)]])) []
     = Inr (Finite (5033165 / 16777216)) \<and>
   score NumPy1 (\<lambda>df. Inr df) (\<lambda>X. Inr (Float64, [[float_lit (1 / 2), float_lit (1 / 2)]])) []
     = Inr (Finite (3 / 2)) \<and>
   (\<exists>v. times3 Float64 (Finite (1 / 2)) = Finite v \<and>
        \<bar>v - 3 * (1 / 2)\<bar> \<le> pow2 (max (ilog2 \<bar>3 * (1 / 2)\<bar> - 52) (- 1074)) / 2) \<and>
   (\<exists>v. times3 Float32 (Finite (13421773 / 134217728)) = Finite v \<and>
        \<bar>v - 3 * (13421773 / 134217728)\<bar>
          \<le> pow2 (max (ilog2 \<bar>3 * (13421773 / 134217728)\<bar> - 23) (- 149)) / 2)"
proof -
  have h64: "\<bar>3 * (1 / 2 :: rat)\<bar> \<le> pow2 1023"
    by (simp add: pow2_def)
  have h32: "\<bar>3 * (13421773 / 134217728 :: rat)\<bar> \<le> pow2 127"
    by (simp add: pow2_def)
  note a = score_scales_by_three [where np = NumPy2 and transform = "\<lambda>df. Inr df" and df = "[]"
      and X = "[]"
      and predict_proba =
        "\<lambda>X. Inr (Float32, [[Finite (7549747 / 8388608), Finite (13421773 / 134217728)]])"
      and dt = Float32 and a = "Finite (7549747 / 8388608)"
      and r = "Finite (13421773 / 134217728)" and rows = "[]" and q = "13421773 / 134217728"]
  note b = score_scales_by_three [where np = NumPy1 and transform = "\<lambda>df. Inr df" and df = "[]"
      and X = "[]"
      and predict_proba = "\<lambda>X. Inr (Float64, [[float_lit (1 / 2), float_lit (1 / 2)]])"
      and dt = Float64 and a = "float_lit (1 / 2)" and r = "float_lit (1 / 2)" and rows = "[]"
      and q = "1 / 2"]
  have s32: "score NumPy2 (\<lambda>df. Inr df)
      (\<lambda>X. Inr (Float32, [[Finite (7549747 / 8388608), Finite (13421773 / 134217728)]])) []
     = Inr (times3 (result_dtype NumPy2 Float32) (Finite (13421773 / 134217728)))"
    using a by blast
  have v32: "times3 (result_dtype NumPy2 Float32) (Finite (13421773 / 134217728))
     = Finite (5033165 / 16777216)"
    by (simp only: result_dtype.simps times3.simps fmul32_3_01)
  have e32: "\<exists>v. times3 Float32 (Finite (13421773 / 134217728)) = Finite v \<and>
        \<bar>v - 3 * (13421773 / 134217728)\<bar>
          \<le> pow2 (max (ilog2 \<bar>3 * (13421773 / 134217728)\<bar> - 23) (- 149)) / 2"
    using a h32 by blast
  have s64: "score NumPy1 (\<lambda>df. Inr df)
      (\<lambda>X. Inr (Float64, [[float_lit (1 / 2), float_lit (1 / 2)]])) []
     = Inr (times3 (result_dtype NumPy1 Float64) (float_lit (1 / 2)))"
    using b by blast
  have v64: "times3 (result_dtype NumPy1 Float64) (float_lit (1 / 2)) = Finite (3 / 2)"
    by (simp only: result_dtype.simps times3.simps fmul_3_half)
  have e64: "\<exists>v. times3 Float64 (Finite (1 / 2)) = Finite v \<and>
        \<bar>v - 3 * (1 / 2)\<bar> \<le> pow2 (max (ilog2 \<bar>3 * (1 / 2)\<bar> - 52) (- 1074)) / 2"
    using b h64 by blast
  from s32 v32 e32 s64 v64 e64 show ?thesis by (simp only: simp_thms)
qed

text \<open>
  A dictionary whose \<^verbatim>\<open>age\<close> is the string \<^verbatim>\<open>'abc'\<close>: the data frame holds NaN under
  \<^verbatim>\<open>age\<close>, the transform and the model are called, and a probability and a risk level
  come back. No error is reported.
\<close>

theorem coercion_counterexample:
  "input_df [(''age'', PyOther ''abc''), (''bmi'', PyFloat (float_lit (57 / 2))), (''HR'', PyInt 72),
      (''DBP'', PyInt 80), (''b8'', PyFloat (float_lit (26 / 5))), (''m14'', PyFloat (float_lit (191 / 2))),
      (''SBP'', PyInt 120), (''d1'', PyInt 3), (''d3'', PyInt 5), (''p1'', PyInt 1), (''p13'', PyInt 2)]
     ! 2 = (''age'', PyFloat NaN) \<and>
   calculate NumPy1 (\<lambda>df. Inr df) (\<lambda>X. Inr (Float64, [[float_lit (7 / 10), float_lit (3 / 10)]]))
     [(''age'', PyOther ''abc''), (''bmi'', PyFloat (float_lit (57 / 2))), (''HR'', PyInt 72),
      (''DBP'', PyInt 80), (''b8'', PyFloat (float_lit (26 / 5))), (''m14'', PyFloat (float_lit (191 / 2))),
      (''SBP'', PyInt 120), (''d1'', PyInt 3), (''d3'', PyInt 5), (''p1'', PyInt 1), (''p13'', PyInt 2)]
     = Inr (Finite (2026619832316723 / 2251799813685248), HighRisk) \<and>
   calculate NumPy2 (\<lambda>df. Inr df) (\<lambda>X. Inr (Float64, [[float_lit (7 / 10), float_lit (3 / 10)]]))
     [(''age'', PyOther ''abc''), (''bmi'', PyFloat (float_lit (57 / 2))), (''HR'', PyInt 72),
      (''DBP'', PyInt 80), (''b8'', PyFloat (float_lit (26 / 5))), (''m14'', PyFloat (float_lit (191 / 2))),
      (''SBP'', PyInt 120), (''d1'', PyInt 3), (''d3'', PyInt 5), (''p1'', PyInt 1), (''p13'', PyInt 2)]
     = Inr (Finite (2026619832316723 / 2251799813685248), HighRisk)"
  by (simp add: input_df_map columns_ordered_def calculate_def score_def score_try_def fmul_3_03
      risk_level_Finite)

lemma is_numeric_to_numeric_coerce: "is_numeric (to_numeric_coerce v)"
  by (cases v) simp_all

text \<open>
  C7, as the program has it. After the coercion every cell of the data frame is numeric; a
  value that cannot be read as a number has become NaN, and the coercion raises nothing.
  Scoring goes on to the transform: when the transform and the model succeed the outcome
  is the scaled probability with its risk level, and an error can only come from the
  \<^verbatim>\<open>try\<close> block.
\<close>

theorem coercion_gives_nan:
  "list_all (\<lambda>cell. is_numeric (snd cell)) (input_df d) \<and>
   (c \<in> set columns_ordered \<and> map_of d c = Some (PyOther s) \<longrightarrow>
      map_of (input_df d) c = Some (PyFloat NaN)) \<and>
   (transform (input_df d) = Inr X \<and> predict_proba X = Inr (dt, [a, r] # rows) \<longrightarrow>
      calculate np transform predict_proba d =
        Inr (times3 (result_dtype np dt) r, risk_level (times3 (result_dtype np dt) r))) \<and>
   (calculate np transform predict_proba d = Inl err \<longrightarrow>
      isl (score_try np transform predict_proba (input_df d)))"
proof (intro conjI impI)
  show "list_all (\<lambda>cell. is_numeric (snd cell)) (input_df d)"
    by (simp add: input_df_map list_all_iff is_numeric_to_numeric_coerce)
next
  assume "c \<in> set columns_ordered \<and> map_of d c = Some (PyOther s)"
  then show "map_of (input_df d) c = Some (PyFloat NaN)"
    by (simp add: input_df_map map_of_map_restrict)
next
  assume "transform (input_df d) = Inr X \<and> predict_proba X = Inr (dt, [a, r] # rows)"
  then show "calculate np transform predict_proba d =
      Inr (times3 (result_dtype np dt) r, risk_level (times3 (result_dtype np dt) r))"
    by (simp add: calculate_def score_def score_try_def)
next
  assume "calculate np transform predict_proba d = Inl err"
  then show "isl (score_try np transform predict_proba (input_df d))"
    by (simp add: calculate_def score_def split: sum.splits)
qed

theorem coercion_gives_nan_witness:
  "map_of (input_df [(''age'', PyOther ''abc''), (''p1'', PyInt 1)]) ''age'' = Some (PyFloat NaN) \<and>
   calculate NumPy2 (\<lambda>df. Inr df) (\<lambda>X. Inr (Float64, [[float_lit (7 / 10), float_lit (3 / 10)]]))
     [(''age'', PyOther ''abc''), (''p1'', PyInt 1)]
     = Inr (Finite (2026619832316723 / 2251799813685248), HighRisk) \<and>
   calculate NumPy2 (\<lambda>df. Inl (OtherException ''columns are missing'') :: py_exn + unit)
     (\<lambda>X. Inr (Float64, [[float_lit (7 / 10), float_lit (3 / 10)]]))
     [(''age'', PyOther ''abc''), (''p1'', PyInt 1)]
     = Inl (TransformFailed ''Failed during transform or predict: columns are missing'') \<and>
   isl (score_try NumPy2 (\<lambda>df. Inl (OtherException ''columns are missing'') :: py_exn + unit)
     (\<lambda>X. Inr (Float64, [[float_lit (7 / 10), float_lit (3 / 10)]]))
     (input_df [(''age'', PyOther ''abc''), (''p1'', PyInt 1)]))"
proof -
  let ?d = "[(''age'', PyOther ''abc''), (''p1'', PyInt 1)]"
  let ?P = "\<lambda>X :: (string \<times> pyval) list.
    Inr (Float64, [[float_lit (7 / 10), float_lit (3 / 10)]]) :: py_exn + dtype \<times> pyfloat list list"
  let ?Q = "\<lambda>X :: unit.
    Inr (Float64, [[float_lit (7 / 10), float_lit (3 / 10)]]) :: py_exn + dtype \<times> pyfloat list list"
  let ?T = "\<lambda>df :: (string \<times> pyval) list. Inl (OtherException ''columns are missing'') :: py_exn + unit"
  have c: "''age'' \<in> set columns_ordered \<and> map_of ?d ''age'' = Some (PyOther ''abc'')"
    by (simp add: columns_ordered_def)
  have e: "calculate NumPy2 ?T ?Q ?d =
      Inl (TransformFailed ''Failed during transform or predict: columns are missing'')"
    by (simp add: calculate_def score_def score_try_def)
  from c e
    coercion_gives_nan [where d = ?d and c = "''age''" and s = "''abc''" and np = NumPy2
      and transform = "\<lambda>df. Inr df" and X = "input_df ?d" and predict_proba = ?P and dt = Float64
      and a = "float_lit (7 / 10)" and r = "float_lit (3 / 10)" and rows = "[]"]
    coercion_gives_nan [where d = ?d and c = "''age''" and s = "''abc''" and np = NumPy2
      and transform = ?T and predict_proba = ?Q
      and err = "TransformFailed ''Failed during transform or predict: columns are missing''"]
  show ?thesis
    by (simp add: fmul_3_03 risk_level_Finite)
qed

end
